theory Spec2Isabelle
  imports Complex_Main "HOL-Library.Sublist" "HOL-Library.AList"
begin

section \<open>Values of the program\<close>

text \<open>
  Python text that is sliced or that holds characters outside ASCII (the status marks of
  the diagnostics endpoint) is a list of code points, so that \<open>s[:80]\<close> counts what
  Python counts. Field names, identifiers and stored text are \<open>string\<close>.
\<close>

type_synonym pystr = "nat list"

definition u :: "string \<Rightarrow> pystr" where
  "u s = map of_char s"

text \<open>
  A Python float: a finite value, an infinity or NaN. The bounds \<open>ge\<close> and \<open>le\<close> of a
  field are the comparisons \<open>value >= bound\<close> and \<open>value <= bound\<close>, both false on NaN.
\<close>

datatype pyfloat = Finite real | PosInf | NegInf | NaN

fun float_ge :: "pyfloat \<Rightarrow> real \<Rightarrow> bool" where
  "float_ge (Finite x) b = (b \<le> x)"
| "float_ge PosInf b = True"
| "float_ge NegInf b = False"
| "float_ge NaN b = False"


datatype date = Date int nat nat

datatype ObjectId = ObjectId nat

definition hex_digit :: "nat \<Rightarrow> char" where
  "hex_digit n = ''0123456789abcdef'' ! (n mod 16)"

fun hex_of :: "nat \<Rightarrow> nat \<Rightarrow> string" where
  "hex_of 0 n = []"
| "hex_of (Suc k) n = hex_of k (n div 16) @ [hex_digit n]"

text \<open>\<open>str(oid)\<close>: the 24 hexadecimal digits of the identifier.\<close>

fun str_ObjectId :: "ObjectId \<Rightarrow> string" where
  "str_ObjectId (ObjectId n) = hex_of 24 n"

text \<open>The values a stored document holds; a document is a dict, in insertion order.\<close>

datatype bson =
    BNull
  | BBool bool
  | BInt int
  | BFloat pyfloat
  | BStr string
  | BDate date
  | BOid ObjectId
  | BList "bson list"
  | BDoc "(string \<times> bson) list"

type_synonym document = "(string \<times> bson) list"

text \<open>
  How a handler or an accessor can fail. \<open>Store_unavailable\<close> is the accessor's
  failure when the connection was never made (\<open>db is None\<close>); \<open>Store_error m\<close> is an
  exception \<open>e\<close> of the store's driver with \<open>str(e) = m\<close>. \<open>Outside_model\<close> is no
  exception of the program: it marks a query outside the part of the store's query
  language that is evaluated here.
\<close>

datatype fault = Store_unavailable | Store_error pystr | Outside_model



section \<open>Request bodies and their validation (schemas.py)\<close>

text \<open>
  A field of a JSON request body as the framework meets it: the key is absent, the
  value is \<open>null\<close>, the value reads as the declared type, or it does not.

  The fields of a record share one name space here, so where two classes have a field of
  the same name the later ones carry the class in theirs (\<open>name\<close> of \<open>Staff\<close> is
  \<open>staff_name\<close>), the fields of a request body carry a prefix (\<open>b_\<close>, \<open>ib_\<close>,
  \<open>pb_\<close>, \<open>sb_\<close>, \<open>ub_\<close>), and \<open>notes\<close> is \<open>notes'\<close>. The documents keep
  the names of the source.
\<close>

datatype 'a input = Absent | Null | Given 'a | Mistyped

datatype verror = Missing string | Wrong_type string | Constraint string

text \<open>\<open>Field(..., constraint)\<close>: a required field.\<close>

fun required :: "string \<Rightarrow> ('a \<Rightarrow> bool) \<Rightarrow> 'a input \<Rightarrow> verror list + 'a" where
  "required f ok Absent = Inl [Missing f]"
| "required f ok Null = Inl [Wrong_type f]"
| "required f ok Mistyped = Inl [Wrong_type f]"
| "required f ok (Given x) = (if ok x then Inr x else Inl [Constraint f])"

text \<open>\<open>Optional[T] = Field(None, constraint)\<close>: absent and \<open>null\<close> both give \<open>None\<close>.\<close>

fun optional :: "string \<Rightarrow> ('a \<Rightarrow> bool) \<Rightarrow> 'a input \<Rightarrow> verror list + 'a option" where
  "optional f ok Absent = Inr None"
| "optional f ok Null = Inr None"
| "optional f ok Mistyped = Inl [Wrong_type f]"
| "optional f ok (Given x) = (if ok x then Inr (Some x) else Inl [Constraint f])"

text \<open>\<open>T = Field(default, constraint)\<close>: the default stands in for an absent key only.\<close>

fun defaulted :: "string \<Rightarrow> 'a \<Rightarrow> ('a \<Rightarrow> bool) \<Rightarrow> 'a input \<Rightarrow> verror list + 'a" where
  "defaulted f d ok Absent = Inr d"
| "defaulted f d ok Null = Inl [Wrong_type f]"
| "defaulted f d ok Mistyped = Inl [Wrong_type f]"
| "defaulted f d ok (Given x) = (if ok x then Inr x else Inl [Constraint f])"

text \<open>Validation reports the errors of all fields together.\<close>

fun ap :: "verror list + ('a \<Rightarrow> 'b) \<Rightarrow> verror list + 'a \<Rightarrow> verror list + 'b" where
  "ap (Inr g) (Inr x) = Inr (g x)"
| "ap (Inl e) (Inr x) = Inl e"
| "ap (Inr g) (Inl e) = Inl e"
| "ap (Inl e) (Inl e') = Inl (e @ e')"

definition any_value :: "'a \<Rightarrow> bool" where
  "any_value x = True"

subsection \<open>Medicine\<close>

record Medicine =
  name :: string
  generic_name :: "string option"
  category :: "string option"
  manufacturer :: "string option"
  sku :: "string option"
  batch_number :: "string option"
  expiry_date :: "date option"
  price :: pyfloat
  cost_price :: "pyfloat option"
  stock :: int
  reorder_level :: int
  unit :: string
  taxable :: bool
  tax_rate :: pyfloat
  notes' :: "string option"



definition mk_Medicine ::
  "string \<Rightarrow> string option \<Rightarrow> string option \<Rightarrow> string option \<Rightarrow> string option \<Rightarrow>
   string option \<Rightarrow> date option \<Rightarrow> pyfloat \<Rightarrow> pyfloat option \<Rightarrow> int \<Rightarrow> int \<Rightarrow> string \<Rightarrow>
   bool \<Rightarrow> pyfloat \<Rightarrow> string option \<Rightarrow> Medicine" where
  "mk_Medicine n g c m s b e p cp st rl un tx tr nt =
     \<lparr>name = n, generic_name = g, category = c, manufacturer = m, sku = s,
      batch_number = b, expiry_date = e, price = p, cost_price = cp, stock = st,
      reorder_level = rl, unit = un, taxable = tx, tax_rate = tr, notes' = nt\<rparr>"


fun opt_bson :: "('a \<Rightarrow> bson) \<Rightarrow> 'a option \<Rightarrow> bson" where
  "opt_bson f None = BNull"
| "opt_bson f (Some x) = f x"

text \<open>The payload as a dict, field by field in the order of the class.\<close>

definition dump_Medicine :: "Medicine \<Rightarrow> document" where
  "dump_Medicine m =
     [(''name'', BStr (name m)),
      (''generic_name'', opt_bson BStr (generic_name m)),
      (''category'', opt_bson BStr (category m)),
      (''manufacturer'', opt_bson BStr (manufacturer m)),
      (''sku'', opt_bson BStr (sku m)),
      (''batch_number'', opt_bson BStr (batch_number m)),
      (''expiry_date'', opt_bson BDate (expiry_date m)),
      (''price'', BFloat (price m)),
      (''cost_price'', opt_bson BFloat (cost_price m)),
      (''stock'', BInt (stock m)),
      (''reorder_level'', BInt (reorder_level m)),
      (''unit'', BStr (unit m)),
      (''taxable'', BBool (taxable m)),
      (''tax_rate'', BFloat (tax_rate m)),
      (''notes'', opt_bson BStr (notes' m))]"


subsection \<open>Prescription\<close>

record PrescriptionItem =
  medicine_id :: string
  item_name :: "string option"
  quantity :: int
  unit_price :: pyfloat

record PrescriptionItem_body =
  ib_medicine_id :: "string input"
  ib_name :: "string input"
  ib_quantity :: "int input"
  ib_unit_price :: "pyfloat input"

definition mk_PrescriptionItem ::
  "string \<Rightarrow> string option \<Rightarrow> int \<Rightarrow> pyfloat \<Rightarrow> PrescriptionItem" where
  "mk_PrescriptionItem i n q p =
     \<lparr>medicine_id = i, item_name = n, quantity = q, unit_price = p\<rparr>"

definition validate_PrescriptionItem ::
  "PrescriptionItem_body \<Rightarrow> verror list + PrescriptionItem" where
  "validate_PrescriptionItem b =
     ap (ap (ap (ap (Inr mk_PrescriptionItem)
       (required ''medicine_id'' any_value (ib_medicine_id b)))
       (optional ''name'' any_value (ib_name b)))
       (required ''quantity'' (\<lambda>i. 1 \<le> i) (ib_quantity b)))
       (required ''unit_price'' (\<lambda>x. float_ge x 0) (ib_unit_price b))"

fun validate_items :: "PrescriptionItem_body list \<Rightarrow> verror list + PrescriptionItem list" where
  "validate_items [] = Inr []"
| "validate_items (b # bs) = ap (ap (Inr Cons) (validate_PrescriptionItem b)) (validate_items bs)"

text \<open>\<open>items: List[PrescriptionItem] = Field(default_factory=list)\<close>.\<close>

fun items_field :: "PrescriptionItem_body list input \<Rightarrow> verror list + PrescriptionItem list" where
  "items_field Absent = Inr []"
| "items_field Null = Inl [Wrong_type ''items'']"
| "items_field Mistyped = Inl [Wrong_type ''items'']"
| "items_field (Given bs) = validate_items bs"

record Prescription =
  number :: "string option"
  patient_name :: string
  patient_phone :: "string option"
  doctor_name :: "string option"
  items :: "PrescriptionItem list"
  subtotal :: pyfloat
  tax :: pyfloat
  total :: pyfloat
  status :: string
  payment_method :: "string option"

record Prescription_body =
  pb_number :: "string input"
  pb_patient_name :: "string input"
  pb_patient_phone :: "string input"
  pb_doctor_name :: "string input"
  pb_items :: "PrescriptionItem_body list input"
  pb_subtotal :: "pyfloat input"
  pb_tax :: "pyfloat input"
  pb_total :: "pyfloat input"
  pb_status :: "string input"
  pb_payment_method :: "string input"

definition status_literals :: "string list" where
  "status_literals = [''pending'', ''dispensed'', ''cancelled'']"

definition payment_method_literals :: "string list" where
  "payment_method_literals = [''cash'', ''card'', ''upi'', ''insurance'']"

definition mk_Prescription ::
  "string option \<Rightarrow> string \<Rightarrow> string option \<Rightarrow> string option \<Rightarrow> PrescriptionItem list \<Rightarrow>
   pyfloat \<Rightarrow> pyfloat \<Rightarrow> pyfloat \<Rightarrow> string \<Rightarrow> string option \<Rightarrow> Prescription" where
  "mk_Prescription n pn pp dn its st tx tt s pm =
     \<lparr>number = n, patient_name = pn, patient_phone = pp, doctor_name = dn, items = its,
      subtotal = st, tax = tx, total = tt, status = s, payment_method = pm\<rparr>"

definition validate_Prescription :: "Prescription_body \<Rightarrow> verror list + Prescription" where
  "validate_Prescription b =
     ap (ap (ap (ap (ap (ap (ap (ap (ap (ap (Inr mk_Prescription)
       (optional ''number'' any_value (pb_number b)))
       (required ''patient_name'' any_value (pb_patient_name b)))
       (optional ''patient_phone'' any_value (pb_patient_phone b)))
       (optional ''doctor_name'' any_value (pb_doctor_name b)))
       (items_field (pb_items b)))
       (defaulted ''subtotal'' (Finite 0) (\<lambda>x. float_ge x 0) (pb_subtotal b)))
       (defaulted ''tax'' (Finite 0) (\<lambda>x. float_ge x 0) (pb_tax b)))
       (defaulted ''total'' (Finite 0) (\<lambda>x. float_ge x 0) (pb_total b)))
       (defaulted ''status'' ''pending'' (\<lambda>s. s \<in> set status_literals) (pb_status b)))
       (optional ''payment_method'' (\<lambda>s. s \<in> set payment_method_literals)
          (pb_payment_method b))"

definition dump_PrescriptionItem :: "PrescriptionItem \<Rightarrow> document" where
  "dump_PrescriptionItem i =
     [(''medicine_id'', BStr (medicine_id i)),
      (''name'', opt_bson BStr (item_name i)),
      (''quantity'', BInt (quantity i)),
      (''unit_price'', BFloat (unit_price i))]"

definition dump_Prescription :: "Prescription \<Rightarrow> document" where
  "dump_Prescription p =
     [(''number'', opt_bson BStr (number p)),
      (''patient_name'', BStr (patient_name p)),
      (''patient_phone'', opt_bson BStr (patient_phone p)),
      (''doctor_name'', opt_bson BStr (doctor_name p)),
      (''items'', BList (map (\<lambda>i. BDoc (dump_PrescriptionItem i)) (items p))),
      (''subtotal'', BFloat (subtotal p)),
      (''tax'', BFloat (tax p)),
      (''total'', BFloat (total p)),
      (''status'', BStr (status p)),
      (''payment_method'', opt_bson BStr (payment_method p))]"

subsection \<open>Staff and Supplier\<close>

record Staff =
  staff_name :: string
  email :: string
  role :: string
  phone :: "string option"
  is_active :: bool



definition mk_Staff :: "string \<Rightarrow> string \<Rightarrow> string \<Rightarrow> string option \<Rightarrow> bool \<Rightarrow> Staff" where
  "mk_Staff n e r p a = \<lparr>staff_name = n, email = e, role = r, phone = p, is_active = a\<rparr>"


definition dump_Staff :: "Staff \<Rightarrow> document" where
  "dump_Staff s =
     [(''name'', BStr (staff_name s)),
      (''email'', BStr (email s)),
      (''role'', BStr (role s)),
      (''phone'', opt_bson BStr (phone s)),
      (''is_active'', BBool (is_active s))]"







section \<open>The document store and its accessor (database.py)\<close>

text \<open>
  The store: its collections by name, the next identifier it will generate, and
  \<open>failing\<close>: when \<open>Some m\<close>, the store is unreachable and every operation on it raises
  an exception with text \<open>m\<close>. The module's \<open>db\<close> is \<open>None\<close> when no connection was made
  at start-up.
\<close>

record store =
  colls :: "(string \<times> document list) list"
  next_oid :: nat
  failing :: "pystr option"

definition collection :: "store \<Rightarrow> string \<Rightarrow> document list" where
  "collection d c = (case map_of (colls d) c of None \<Rightarrow> [] | Some ds \<Rightarrow> ds)"

text \<open>
  Modelled from the spec: \<open>create_document\<close> of database.py, which is not among the
  sources. It stores the payload's dict in the named collection under a newly generated
  identifier and returns that identifier as a string; it fails when the store is not
  available or unreachable, and then stores nothing.
\<close>

definition create_document ::
  "store option \<Rightarrow> string \<Rightarrow> document \<Rightarrow> (fault + string) \<times> store option" where
  "create_document db collection_name data =
     (case db of
        None \<Rightarrow> (Inl Store_unavailable, db)
      | Some d \<Rightarrow>
          (case failing d of
             Some m \<Rightarrow> (Inl (Store_error m), db)
           | None \<Rightarrow>
               (let oid = ObjectId (next_oid d);
                    doc = (''_id'', BOid oid) # data
                in (Inr (str_ObjectId oid),
                    Some (d\<lparr>colls :=
                              AList.update collection_name
                                (collection d collection_name @ [doc]) (colls d),
                            next_oid := Suc (next_oid d)\<rparr>)))))"



section \<open>The part of the store's query language that the handlers use\<close>

text \<open>
  The filters are evaluated by the document store, which is no part of the repository;
  what follows is the meaning the store gives to the filters that the handlers build.

  A filter is a dict. Its entries are the three forms the handlers build: a field with a
  condition (a plain value, compared for equality, or \<open>{"$regex": p, "$options": o}\<close>),
  \<open>"$or"\<close> with a list of such dicts, and \<open>"$expr"\<close> with
  \<open>{"$lte": ["$a", "$b"]}\<close>. All entries of a filter must hold.
\<close>

datatype cond = Equals bson | Regex string string

datatype clause =
    Cond cond
  | Or "(string \<times> cond) list list"
  | Expr_lte string string

type_synonym query = "(string \<times> clause) list"

text \<open>
  Regular expressions. A pattern is read as far as this model goes: every character
  stands for itself, \<open>.\<close> stands for any character but a newline, and a pattern with
  any other metacharacter is outside the model (\<open>None\<close>), as are options other than
  \<open>i\<close>. Letter case is the case of the letters A to Z.
\<close>

definition metachars :: string where
  "metachars = CHR 0x5C # ''^$.|?*+()[]{}''"

datatype atom = Lit char | Any_char

definition lower :: "char \<Rightarrow> char" where
  "lower c = (let n = (of_char c :: nat) in if 65 \<le> n \<and> n \<le> 90 then char_of (n + 32) else c)"

definition compile_regex :: "string \<Rightarrow> string \<Rightarrow> (bool \<times> atom list) option" where
  "compile_regex pattern options =
     (if options \<noteq> ''i'' \<and> options \<noteq> [] then None
      else if list_ex (\<lambda>c. c \<noteq> CHR ''.'' \<and> c \<in> set metachars) pattern then None
      else Some (options = ''i'',
                 map (\<lambda>c. if c = CHR ''.'' then Any_char else Lit c) pattern))"

fun atom_holds :: "bool \<Rightarrow> atom \<Rightarrow> char \<Rightarrow> bool" where
  "atom_holds ci (Lit c) d = (if ci then lower c = lower d else c = d)"
| "atom_holds ci Any_char d = (d \<noteq> CHR 0x0A)"

fun match_here :: "bool \<Rightarrow> atom list \<Rightarrow> string \<Rightarrow> bool" where
  "match_here ci [] s = True"
| "match_here ci (a # as) [] = False"
| "match_here ci (a # as) (c # cs) = (atom_holds ci a c \<and> match_here ci as cs)"

text \<open>An unanchored pattern matches when it matches at some position.\<close>

fun regex_search :: "bool \<Rightarrow> atom list \<Rightarrow> string \<Rightarrow> bool" where
  "regex_search ci r [] = match_here ci r []"
| "regex_search ci r (c # cs) = (match_here ci r (c # cs) \<or> regex_search ci r cs)"

text \<open>
  Whether a document satisfies a condition: \<open>None\<close> where the model does not say
  (an array field, a compared value that is neither a string nor a boolean, a pattern
  outside the model).
\<close>

fun cond_holds :: "cond \<Rightarrow> bson option \<Rightarrow> bool option" where
  "cond_holds (Equals v) x =
     (case x of
        Some (BList l) \<Rightarrow> None
      | _ \<Rightarrow> (case v of
                BStr s \<Rightarrow> Some (x = Some v)
              | BBool b \<Rightarrow> Some (x = Some v)
              | _ \<Rightarrow> None))"
| "cond_holds (Regex p opts) x =
     (case compile_regex p opts of
        None \<Rightarrow> None
      | Some (ci, r) \<Rightarrow>
          (case x of
             Some (BStr s) \<Rightarrow> Some (regex_search ci r s)
           | Some (BList l) \<Rightarrow> None
           | _ \<Rightarrow> Some False))"

fun all_opt :: "bool option list \<Rightarrow> bool option" where
  "all_opt [] = Some True"
| "all_opt (x # xs) =
     (case x of
        None \<Rightarrow> None
      | Some b \<Rightarrow> (case all_opt xs of None \<Rightarrow> None | Some c \<Rightarrow> Some (b \<and> c)))"

fun any_opt :: "bool option list \<Rightarrow> bool option" where
  "any_opt [] = Some False"
| "any_opt (x # xs) =
     (case x of
        None \<Rightarrow> None
      | Some b \<Rightarrow> (case any_opt xs of None \<Rightarrow> None | Some c \<Rightarrow> Some (b \<or> c)))"

definition is_operator :: "string \<Rightarrow> bool" where
  "is_operator k = (case k of [] \<Rightarrow> False | c # cs \<Rightarrow> c = CHR ''$'')"

definition field_matches :: "(string \<times> cond) list \<Rightarrow> document \<Rightarrow> bool option" where
  "field_matches f d =
     all_opt (map (\<lambda>(k, c). if is_operator k then None else cond_holds c (map_of d k)) f)"

text \<open>\<open>"$stock"\<close> in an expression is the value of the field \<open>stock\<close>.\<close>

definition field_path :: "string \<Rightarrow> document \<Rightarrow> bson option" where
  "field_path p d =
     (case p of [] \<Rightarrow> None | c # f \<Rightarrow> if c = CHR ''$'' then map_of d f else None)"

fun clause_holds :: "string \<Rightarrow> clause \<Rightarrow> document \<Rightarrow> bool option" where
  "clause_holds k (Cond c) d = (if is_operator k then None else cond_holds c (map_of d k))"
| "clause_holds k (Or fs) d =
     (if k = ''$or'' \<and> fs \<noteq> [] then any_opt (map (\<lambda>f. field_matches f d) fs) else None)"
| "clause_holds k (Expr_lte a b) d =
     (if k = ''$expr'' then
        (case (field_path a d, field_path b d) of
           (Some (BInt x), Some (BInt y)) \<Rightarrow> Some (x \<le> y)
         | _ \<Rightarrow> None)
      else None)"

definition matches :: "query \<Rightarrow> document \<Rightarrow> bool option" where
  "matches q d = all_opt (map (\<lambda>(k, c). clause_holds k c d) q)"

text \<open>A filter is read before any document is: its patterns must be in the model.\<close>

fun cond_modelled :: "cond \<Rightarrow> bool" where
  "cond_modelled (Equals v) = True"
| "cond_modelled (Regex p opts) = (compile_regex p opts \<noteq> None)"

fun clause_modelled :: "clause \<Rightarrow> bool" where
  "clause_modelled (Cond c) = cond_modelled c"
| "clause_modelled (Or fs) = list_all (list_all (\<lambda>(k, c). cond_modelled c)) fs"
| "clause_modelled (Expr_lte a b) = True"

definition query_modelled :: "query \<Rightarrow> bool" where
  "query_modelled q = list_all (\<lambda>(k, c). clause_modelled c) q"

text \<open>The matching documents, in stored order.\<close>

fun find_docs :: "query \<Rightarrow> document list \<Rightarrow> document list option" where
  "find_docs q [] = Some []"
| "find_docs q (d # ds) =
     (case matches q d of
        None \<Rightarrow> None
      | Some b \<Rightarrow>
          (case find_docs q ds of
             None \<Rightarrow> None
           | Some r \<Rightarrow> Some (if b then d # r else r)))"

text \<open>The generated identifier of a returned document as a plain string.\<close>

definition id_to_str :: "document \<Rightarrow> document" where
  "id_to_str d =
     map (\<lambda>(k, v). (k, if k = ''_id'' then (case v of BOid oid \<Rightarrow> BStr (str_ObjectId oid) | _ \<Rightarrow> v)
                       else v)) d"

text \<open>
  Modelled from the spec: \<open>get_documents\<close> of database.py, which is not among the
  sources. It runs the filter against the named collection and returns at most \<open>limit\<close>
  matching documents, in the store's insertion order, the generated identifier as a
  plain string; no match gives the empty sequence. It fails when the store is not
  available or unreachable.
\<close>

definition get_documents ::
  "store option \<Rightarrow> string \<Rightarrow> query \<Rightarrow> int \<Rightarrow> fault + document list" where
  "get_documents db collection_name filter_dict limit =
     (case db of
        None \<Rightarrow> Inl Store_unavailable
      | Some d \<Rightarrow>
          (case failing d of
             Some m \<Rightarrow> Inl (Store_error m)
           | None \<Rightarrow>
               if \<not> query_modelled filter_dict then Inl Outside_model
               else (case find_docs filter_dict (collection d collection_name) of
                       None \<Rightarrow> Inl Outside_model
                     | Some ds \<Rightarrow> Inr (map id_to_str (take (nat limit) ds)))))"


section \<open>The handlers (main.py)\<close>

text \<open>
  A query parameter is \<open>None\<close> when the request leaves it out; the handler then sees
  the default of its signature.
\<close>

fun param :: "'a \<Rightarrow> 'a option \<Rightarrow> 'a" where
  "param d None = d"
| "param d (Some x) = x"

text \<open>\<open>if q:\<close> on an optional string: \<open>None\<close> and the empty string are false.\<close>

fun truthy :: "string option \<Rightarrow> bool" where
  "truthy None = False"
| "truthy (Some s) = (s \<noteq> [])"

subsection \<open>Identifier helper\<close>


subsection \<open>Diagnostics\<close>

record test_response =
  backend :: pystr
  database :: pystr
  database_url :: pystr
  database_name :: pystr
  connection_status :: pystr
  collections :: "string list"

type_synonym environ = "string \<Rightarrow> string option"

definition mark_ok :: pystr where "mark_ok = [0x2705]"
definition mark_no :: pystr where "mark_no = [0x274C]"
definition mark_warn :: pystr where "mark_warn = [0x26A0, 0xFE0F]"

definition set_or_not :: "environ \<Rightarrow> string \<Rightarrow> pystr" where
  "set_or_not env k =
     (if truthy (env k) then mark_ok @ u '' Set'' else mark_no @ u '' Not Set'')"

text \<open>\<open>db.list_collection_names()\<close>: fails when the store is unreachable.\<close>

definition list_collection_names :: "store \<Rightarrow> fault + string list" where
  "list_collection_names d =
     (case failing d of Some m \<Rightarrow> Inl (Store_error m) | None \<Rightarrow> Inr (map fst (colls d)))"

text \<open>
  \<open>try: ... except Exception as e: ...\<close> around a block that updates \<open>response\<close>: the
  block ends with the updated response, or raises with the response as it is then. An
  exception \<open>e\<close> is caught and the handler gets \<open>str(e)\<close>; a fault that is no exception
  with a text passes through.
\<close>

fun except_Exception ::
  "(fault \<times> 's) + 's \<Rightarrow> (pystr \<Rightarrow> 's \<Rightarrow> 's) \<Rightarrow> (fault \<times> 's) + 's" where
  "except_Exception (Inr s) handler = Inr s"
| "except_Exception (Inl (Store_error m, s)) handler = Inr (handler m s)"
| "except_Exception (Inl (e, s)) handler = Inl (e, s)"

definition test_database :: "environ \<Rightarrow> store option \<Rightarrow> fault + test_response" where
  "test_database env db =
     (let response =
            \<lparr>backend = mark_ok @ u '' Running'',
             database = mark_no @ u '' Not Available'',
             database_url = set_or_not env ''DATABASE_URL'',
             database_name = set_or_not env ''DATABASE_NAME'',
             connection_status = u ''Not Connected'',
             collections = []\<rparr>;
          outcome =
            except_Exception
              (case db of
                 None \<Rightarrow> Inr response
               | Some d \<Rightarrow>
                   (let response = response\<lparr>database := mark_ok @ u '' Available'',
                                            connection_status := u ''Connected''\<rparr>
                    in except_Exception
                         (case list_collection_names d of
                            Inl e \<Rightarrow> Inl (e, response)
                          | Inr names \<Rightarrow>
                              Inr (response\<lparr>collections := take 10 names,
                                            database := mark_ok @ u '' Connected & Working''\<rparr>))
                         (\<lambda>m response.
                            response\<lparr>database :=
                              mark_warn @ u '' Connected but Error: '' @ take 80 m\<rparr>)))
              (\<lambda>m response. response\<lparr>database := mark_no @ u '' Error: '' @ take 80 m\<rparr>)
      in case outcome of Inl (e, response) \<Rightarrow> Inl e | Inr response \<Rightarrow> Inr response)"

subsection \<open>Create handlers\<close>


definition create_prescription ::
  "store option \<Rightarrow> Prescription \<Rightarrow> (fault + string) \<times> store option" where
  "create_prescription db payload =
     create_document db ''prescription'' (dump_Prescription payload)"



subsection \<open>List handlers\<close>

text \<open>The filter that \<open>list_medicines\<close> builds before it calls the accessor.\<close>

definition list_medicines_filt :: "string option \<Rightarrow> bool option \<Rightarrow> query" where
  "list_medicines_filt q low_stock =
     (let filt = [];
          filt = (if truthy q then
                    [(''$or'', Or [[(''name'', Regex (the q) ''i'')],
                                   [(''generic_name'', Regex (the q) ''i'')],
                                   [(''sku'', Regex (the q) ''i'')]])]
                  else filt);
          filt = (if param False low_stock then
                    AList.update ''$expr'' (Expr_lte ''$stock'' ''$reorder_level'') filt
                  else filt)
      in filt)"

definition list_medicines ::
  "store option \<Rightarrow> string option \<Rightarrow> bool option \<Rightarrow> int option \<Rightarrow> fault + document list" where
  "list_medicines db q low_stock limit =
     get_documents db ''medicine'' (list_medicines_filt q low_stock) (param 100 limit)"

definition list_prescriptions_filt :: "string option \<Rightarrow> query" where
  "list_prescriptions_filt status' =
     (if truthy status' then [(''status'', Cond (Equals (BStr (the status'))))] else [])"

definition list_prescriptions ::
  "store option \<Rightarrow> string option \<Rightarrow> int option \<Rightarrow> fault + document list" where
  "list_prescriptions db status' limit =
     get_documents db ''prescription'' (list_prescriptions_filt status') (param 100 limit)"

definition list_staff_filt :: "string option \<Rightarrow> bool option \<Rightarrow> query" where
  "list_staff_filt role' active =
     (let filt = [];
          filt = (if truthy role' then
                    AList.update ''role'' (Cond (Equals (BStr (the role')))) filt
                  else filt);
          filt = (case active of
                    None \<Rightarrow> filt
                  | Some a \<Rightarrow> AList.update ''is_active'' (Cond (Equals (BBool a))) filt)
      in filt)"

definition list_staff ::
  "store option \<Rightarrow> string option \<Rightarrow> bool option \<Rightarrow> int option \<Rightarrow> fault + document list" where
  "list_staff db role' active limit =
     get_documents db ''staff'' (list_staff_filt role' active) (param 100 limit)"

definition list_suppliers_filt :: "string option \<Rightarrow> query" where
  "list_suppliers_filt q =
     (if truthy q then
        [(''$or'', Or [[(''name'', Regex (the q) ''i'')],
                       [(''contact_name'', Regex (the q) ''i'')]])]
      else [])"

definition list_suppliers ::
  "store option \<Rightarrow> string option \<Rightarrow> int option \<Rightarrow> fault + document list" where
  "list_suppliers db q limit =
     get_documents db ''supplier'' (list_suppliers_filt q) (param 100 limit)"

subsection \<open>The HTTP surface\<close>


text \<open>
  What a request is answered with: the handler's value, a validation error of the
  framework (422), an \<open>HTTPException\<close> raised by a handler, or the framework's answer to
  any other exception (500).
\<close>

datatype response =
    Message string
  | Schema_registry
  | Diagnostics test_response
  | Created string
  | Documents "document list"
  | Unprocessable "verror list"
  | Http_error nat string
  | Server_error fault


fun respond_created :: "fault + string \<Rightarrow> response" where
  "respond_created (Inl e) = Server_error e"
| "respond_created (Inr new_id) = Created new_id"



text \<open>
  A \<open>POST\<close>: the framework validates the body against the schema and calls the handler
  only with a validated payload.
\<close>

definition post ::
  "('b \<Rightarrow> verror list + 'p) \<Rightarrow> (store option \<Rightarrow> 'p \<Rightarrow> (fault + string) \<times> store option) \<Rightarrow>
   store option \<Rightarrow> 'b \<Rightarrow> response \<times> store option" where
  "post validate handler db body =
     (case validate body of
        Inl errs \<Rightarrow> (Unprocessable errs, db)
      | Inr payload \<Rightarrow> (case handler db payload of (r, db') \<Rightarrow> (respond_created r, db')))"


definition post_prescriptions ::
  "store option \<Rightarrow> Prescription_body \<Rightarrow> response \<times> store option" where
  "post_prescriptions = post validate_Prescription create_prescription"



section \<open>The properties, in the words of the specification\<close>






text \<open>
  A document as the store holds it, under its generated identifier, and as a list
  endpoint returns it, the identifier a string.
\<close>

definition stored_doc :: "ObjectId \<Rightarrow> document \<Rightarrow> document" where
  "stored_doc oid data = (''_id'', BOid oid) # data"

definition returned_doc :: "ObjectId \<Rightarrow> document \<Rightarrow> document" where
  "returned_doc oid data = (''_id'', BStr (str_ObjectId oid)) # data"

definition medicine_docs :: "(ObjectId \<times> Medicine) list \<Rightarrow> document list" where
  "medicine_docs ms = map (\<lambda>(oid, m). stored_doc oid (dump_Medicine m)) ms"

definition medicine_results :: "(ObjectId \<times> Medicine) list \<Rightarrow> document list" where
  "medicine_results ms = map (\<lambda>(oid, m). returned_doc oid (dump_Medicine m)) ms"










text \<open>The staff collection, as stored and as returned.\<close>

definition staff_docs :: "(ObjectId \<times> Staff) list \<Rightarrow> document list" where
  "staff_docs ss = map (\<lambda>(oid, s). stored_doc oid (dump_Staff s)) ss"

definition staff_results :: "(ObjectId \<times> Staff) list \<Rightarrow> document list" where
  "staff_results ss = map (\<lambda>(oid, s). returned_doc oid (dump_Staff s)) ss"

text \<open>The restrictions of \<open>GET /api/staff\<close>: a role that is supplied and not empty must be
  the role of the member; \<open>active\<close>, when supplied, must be their \<open>is_active\<close>.\<close>

definition role_ok :: "string option \<Rightarrow> Staff \<Rightarrow> bool" where
  "role_ok role' s \<longleftrightarrow> (truthy role' \<longrightarrow> role s = the role')"

definition active_ok :: "bool option \<Rightarrow> Staff \<Rightarrow> bool" where
  "active_ok active s \<longleftrightarrow> (case active of None \<Rightarrow> True | Some a \<Rightarrow> is_active s = a)"

text \<open>The store is reachable and \<open>ms\<close> are the documents of the collection that match
  the filter, in stored order.\<close>

definition matching :: "store \<Rightarrow> string \<Rightarrow> query \<Rightarrow> document list \<Rightarrow> bool" where
  "matching d c f ms \<longleftrightarrow>
     failing d = None \<and> query_modelled f \<and> find_docs f (collection d c) = Some ms"

text \<open>What the \<open>limit\<close> parameter does to an endpoint whose matching documents are
  \<open>ms\<close>: 100 are returned at most when it is left out, exactly the first \<open>limit\<close> when
  it is given, however large, and one document for \<open>limit=1\<close> on three matches.\<close>

definition limit_law :: "(int option \<Rightarrow> fault + document list) \<Rightarrow> document list \<Rightarrow> bool" where
  "limit_law endpoint ms \<longleftrightarrow>
     endpoint None = Inr (map id_to_str (take 100 ms)) \<and>
     (\<forall>l. endpoint (Some l) = Inr (map id_to_str (take (nat l) ms))) \<and>
     (length ms = 3 \<longrightarrow> (\<exists>doc. endpoint (Some 1) = Inr [doc]))"


text \<open>The store after a document was inserted into a collection.\<close>

definition with_document :: "store \<Rightarrow> string \<Rightarrow> document \<Rightarrow> store" where
  "with_document d c data =
     d\<lparr>colls := AList.update c
                  (collection d c @ [stored_doc (ObjectId (next_oid d)) data]) (colls d),
       next_oid := Suc (next_oid d)\<rparr>"




section \<open>Example data\<close>

definition empty_store :: store where
  "empty_store = \<lparr>colls = [], next_oid = 0, failing = None\<rparr>"



definition aspirin :: Medicine where
  "aspirin =
     mk_Medicine ''Aspirin'' None None None None None None (Finite 2) None 0 10 ''unit''
       True (Finite 0) None"


text \<open>
  Three medicines: one below its reorder level, one exactly at it whose sku alone holds
  \<open>asp\<close>, one above it.
\<close>

definition ibuprofen :: Medicine where
  "ibuprofen = aspirin\<lparr>name := ''Ibuprofen'', sku := Some ''SKU-asp'', stock := 10\<rparr>"

definition paracetamol :: Medicine where
  "paracetamol = aspirin\<lparr>name := ''Paracetamol'', stock := 11\<rparr>"

definition three_medicines :: "(ObjectId \<times> Medicine) list" where
  "three_medicines =
     [(ObjectId 0, aspirin), (ObjectId 1, ibuprofen), (ObjectId 2, paracetamol)]"

text \<open>Three members of staff: an active and an inactive pharmacist, an inactive seller.\<close>

definition alice :: Staff where
  "alice = mk_Staff ''Alice'' ''alice@example.org'' ''Pharmacist'' None True"

definition bob :: Staff where
  "bob = mk_Staff ''Bob'' ''bob@example.org'' ''Pharmacist'' None False"

definition carol :: Staff where
  "carol = mk_Staff ''Carol'' ''carol@example.org'' ''Sales'' None False"

definition three_staff :: "(ObjectId \<times> Staff) list" where
  "three_staff = [(ObjectId 3, alice), (ObjectId 4, bob), (ObjectId 5, carol)]"

definition pharmacy :: store where
  "pharmacy = \<lparr>colls = [(''medicine'', medicine_docs three_medicines),
                        (''staff'', staff_docs three_staff)],
               next_oid = 6, failing = None\<rparr>"

text \<open>The same store, unreachable; the driver's message has 100 characters.\<close>

definition unreachable :: store where
  "unreachable = pharmacy\<lparr>failing := Some (replicate 100 120)\<rparr>"




text \<open>Prescription bodies: nothing supplied; one item of quantity 1 and unit price 0 with
  the caller's subtotal, tax and total; one item of quantity 0.\<close>

definition empty_Prescription_body :: Prescription_body where
  "empty_Prescription_body =
     \<lparr>pb_number = Absent, pb_patient_name = Absent, pb_patient_phone = Absent,
      pb_doctor_name = Absent, pb_items = Absent, pb_subtotal = Absent, pb_tax = Absent,
      pb_total = Absent, pb_status = Absent, pb_payment_method = Absent\<rparr>"








section \<open>Validation\<close>

lemma ap_Inr_iff: "ap f x = Inr y \<longleftrightarrow> (\<exists>g a. f = Inr g \<and> x = Inr a \<and> y = g a)"
  by (cases f; cases x) auto













section \<open>Listing medicines\<close>

lemma find_docs_filter:
  assumes "\<And>x. x \<in> set xs \<Longrightarrow> matches q (f x) = Some (P x)"
  shows "find_docs q (map f xs) = Some (map f (filter P xs))"
  using assms by (induction xs) auto

lemma get_documents_filter:
  assumes "failing d = None" and "query_modelled q"
    and "collection d c = map f xs"
    and "\<And>x. x \<in> set xs \<Longrightarrow> matches q (f x) = Some (P x)"
  shows "get_documents (Some d) c q limit
           = Inr (map (id_to_str \<circ> f) (take (nat limit) (filter P xs)))"
  using assms(1,2,3) find_docs_filter[of xs q f P, OF assms(4)]
  by (simp add: get_documents_def take_map)











lemma id_to_str_stored_medicine:
  "id_to_str (stored_doc oid (dump_Medicine m)) = returned_doc oid (dump_Medicine m)"
  by (simp add: id_to_str_def stored_doc_def returned_doc_def dump_Medicine_def)






lemma pharmacy_ok:
  "failing pharmacy = None" "collection pharmacy ''medicine'' = medicine_docs three_medicines"
  by (simp_all add: pharmacy_def collection_def)







section \<open>Listing staff\<close>

lemma lookup_staff:
  "map_of (stored_doc oid (dump_Staff s)) ''role'' = Some (BStr (role s))"
  "map_of (stored_doc oid (dump_Staff s)) ''is_active'' = Some (BBool (is_active s))"
  by (simp_all add: stored_doc_def dump_Staff_def)

lemma matches_staff:
  "matches (list_staff_filt role' active) (stored_doc oid (dump_Staff s))
   = Some (role_ok role' s \<and> active_ok active s)"
  by (cases active; cases "truthy role'")
     (auto simp: matches_def list_staff_filt_def role_ok_def active_ok_def Let_def
        is_operator_def lookup_staff)

lemma query_modelled_staff: "query_modelled (list_staff_filt role' active)"
  by (cases active) (auto simp: query_modelled_def list_staff_filt_def Let_def)

lemma id_to_str_stored_staff:
  "id_to_str (stored_doc oid (dump_Staff s)) = returned_doc oid (dump_Staff s)"
  by (simp add: id_to_str_def stored_doc_def returned_doc_def dump_Staff_def)

text \<open>
  C5. With the store reachable and the staff collection holding \<open>ss\<close>,
  \<open>GET /api/staff\<close> returns, in stored order and cut to the first \<open>limit\<close> (100 when
  left out), the members that pass both restrictions: \<open>active=false\<close> keeps those with
  \<open>is_active\<close> false, \<open>active=true\<close> those with \<open>is_active\<close> true, and no \<open>active\<close>
  keeps both; a role that is supplied (and not empty) keeps those with exactly that role;
  the two are joined by ``and''.
\<close>

theorem C5_staff_filter:
  assumes "failing d = None" and "collection d ''staff'' = staff_docs ss"
  shows "list_staff (Some d) role' active limit
         = Inr (staff_results (take (nat (param 100 limit))
              (filter (\<lambda>(oid, s). role_ok role' s \<and> active_ok active s) ss)))"
proof -
  have "get_documents (Some d) ''staff'' (list_staff_filt role' active) (param 100 limit)
        = Inr (map (id_to_str \<circ> (\<lambda>(oid, s). stored_doc oid (dump_Staff s)))
                 (take (nat (param 100 limit))
                   (filter (\<lambda>(oid, s). role_ok role' s \<and> active_ok active s) ss)))"
    using assms(1) query_modelled_staff assms(2)[unfolded staff_docs_def]
    by (rule get_documents_filter) (auto simp: matches_staff)
  moreover have "id_to_str \<circ> (\<lambda>(oid, s). stored_doc oid (dump_Staff s))
                 = (\<lambda>(oid, s). returned_doc oid (dump_Staff s))"
    by (auto simp: fun_eq_iff id_to_str_stored_staff)
  ultimately show ?thesis by (simp add: list_staff_def staff_results_def)
qed

lemma pharmacy_staff:
  "failing pharmacy = None" "collection pharmacy ''staff'' = staff_docs three_staff"
  by (simp_all add: pharmacy_def collection_def)

theorem C5_staff_filter_witness:
  "failing pharmacy = None
   \<and> collection pharmacy ''staff'' = staff_docs three_staff
   \<and> list_staff (Some pharmacy) (Some ''Pharmacist'') (Some False) None
       = Inr (staff_results [(ObjectId 4, bob)])
   \<and> list_staff (Some pharmacy) None (Some False) None
       = Inr (staff_results [(ObjectId 4, bob), (ObjectId 5, carol)])
   \<and> list_staff (Some pharmacy) None None None = Inr (staff_results three_staff)"
proof -
  have 1: "filter (\<lambda>(oid, s). role_ok (Some ''Pharmacist'') s \<and> active_ok (Some False) s)
             three_staff = [(ObjectId 4, bob)]"
    by (simp add: three_staff_def role_ok_def active_ok_def alice_def bob_def carol_def
          mk_Staff_def)
  have 2: "filter (\<lambda>(oid, s). role_ok None s \<and> active_ok (Some False) s) three_staff
           = [(ObjectId 4, bob), (ObjectId 5, carol)]"
    by (simp add: three_staff_def role_ok_def active_ok_def alice_def bob_def carol_def
          mk_Staff_def)
  have 3: "filter (\<lambda>(oid, s). role_ok None s \<and> active_ok None s) three_staff = three_staff"
    by (simp add: three_staff_def role_ok_def active_ok_def)
  from C5_staff_filter[OF pharmacy_staff, of "Some ''Pharmacist''" "Some False" None]
       C5_staff_filter[OF pharmacy_staff, of None "Some False" None]
       C5_staff_filter[OF pharmacy_staff, of None None None]
       pharmacy_staff 1 2 3
  show ?thesis by (simp add: three_staff_def)
qed

section \<open>The limit of the list endpoints\<close>

lemma get_documents_matching:
  assumes "matching d c f ms"
  shows "get_documents (Some d) c f l = Inr (map id_to_str (take (nat l) ms))"
  using assms by (simp add: matching_def get_documents_def)

lemma limit_law_get_documents:
  assumes "matching d c f ms"
  shows "limit_law (\<lambda>limit. get_documents (Some d) c f (param 100 limit)) ms"
proof -
  have "length ms = 3 \<Longrightarrow> \<exists>doc. map id_to_str (take (Suc 0) ms) = [doc]"
    by (cases ms) auto
  then show ?thesis
    by (simp add: limit_law_def get_documents_matching[OF assms])
qed

lemma find_docs_no_filter: "find_docs [] ds = Some ds"
  by (induction ds) (simp_all add: matches_def)

lemma matching_no_filter: "failing d = None \<Longrightarrow> matching d c [] (collection d c)"
  by (simp add: matching_def query_modelled_def find_docs_no_filter)

text \<open>
  C4. Each of the four list endpoints answers a request without \<open>limit\<close> as it answers
  \<open>limit=100\<close>. With \<open>ms\<close> the matching documents of its collection, it returns the
  first 100 of them when \<open>limit\<close> is left out and the first \<open>limit\<close> when it is given,
  whatever its size; \<open>limit=1\<close> on three matching documents returns exactly one.
\<close>

theorem C4_limit:
  "list_medicines db q low_stock None = list_medicines db q low_stock (Some 100)
   \<and> list_prescriptions db status' None = list_prescriptions db status' (Some 100)
   \<and> list_staff db role' active None = list_staff db role' active (Some 100)
   \<and> list_suppliers db q None = list_suppliers db q (Some 100)
   \<and> (matching d ''medicine'' (list_medicines_filt q low_stock) ms1 \<longrightarrow>
        limit_law (list_medicines (Some d) q low_stock) ms1)
   \<and> (matching d ''prescription'' (list_prescriptions_filt status') ms2 \<longrightarrow>
        limit_law (list_prescriptions (Some d) status') ms2)
   \<and> (matching d ''staff'' (list_staff_filt role' active) ms3 \<longrightarrow>
        limit_law (list_staff (Some d) role' active) ms3)
   \<and> (matching d ''supplier'' (list_suppliers_filt q) ms4 \<longrightarrow>
        limit_law (list_suppliers (Some d) q) ms4)"
proof -
  have 1: "list_medicines (Some d) q low_stock
           = (\<lambda>limit. get_documents (Some d) ''medicine'' (list_medicines_filt q low_stock)
                        (param 100 limit))"
    by (simp add: fun_eq_iff list_medicines_def)
  have 2: "list_prescriptions (Some d) status'
           = (\<lambda>limit. get_documents (Some d) ''prescription'' (list_prescriptions_filt status')
                        (param 100 limit))"
    by (simp add: fun_eq_iff list_prescriptions_def)
  have 3: "list_staff (Some d) role' active
           = (\<lambda>limit. get_documents (Some d) ''staff'' (list_staff_filt role' active)
                        (param 100 limit))"
    by (simp add: fun_eq_iff list_staff_def)
  have 4: "list_suppliers (Some d) q
           = (\<lambda>limit. get_documents (Some d) ''supplier'' (list_suppliers_filt q)
                        (param 100 limit))"
    by (simp add: fun_eq_iff list_suppliers_def)
  show ?thesis
    unfolding 1 2 3 4
    by (simp add: list_medicines_def list_prescriptions_def list_staff_def list_suppliers_def
          limit_law_get_documents)
qed

theorem C4_limit_witness:
  "matching pharmacy ''medicine'' (list_medicines_filt None None) (medicine_docs three_medicines)
   \<and> matching pharmacy ''prescription'' (list_prescriptions_filt None) []
   \<and> matching pharmacy ''staff'' (list_staff_filt None None) (staff_docs three_staff)
   \<and> matching pharmacy ''supplier'' (list_suppliers_filt None) []
   \<and> length (medicine_docs three_medicines) = 3
   \<and> list_medicines (Some pharmacy) None None (Some 1)
       = Inr (medicine_results [(ObjectId 0, aspirin)])
   \<and> list_medicines (Some pharmacy) None None None = Inr (medicine_results three_medicines)
   \<and> list_staff (Some pharmacy) None None (Some 2)
       = Inr (staff_results [(ObjectId 3, alice), (ObjectId 4, bob)])
   \<and> list_prescriptions (Some pharmacy) None (Some 1) = Inr []
   \<and> list_suppliers (Some pharmacy) None None = Inr []"
proof -
  have f: "list_medicines_filt None None = []" "list_prescriptions_filt None = []"
    "list_staff_filt None None = []" "list_suppliers_filt None = []"
    by (simp_all add: list_medicines_filt_def list_prescriptions_filt_def list_staff_filt_def
          list_suppliers_filt_def)
  have m1: "matching pharmacy ''medicine'' (list_medicines_filt None None)
              (medicine_docs three_medicines)"
    using matching_no_filter[OF pharmacy_ok(1), of "''medicine''"] by (simp add: f pharmacy_ok)
  have m2: "matching pharmacy ''prescription'' (list_prescriptions_filt None) []"
    using matching_no_filter[OF pharmacy_ok(1), of "''prescription''"]
    by (simp add: f pharmacy_def collection_def)
  have m3: "matching pharmacy ''staff'' (list_staff_filt None None) (staff_docs three_staff)"
    using matching_no_filter[OF pharmacy_ok(1), of "''staff''"] by (simp add: f pharmacy_staff)
  have m4: "matching pharmacy ''supplier'' (list_suppliers_filt None) []"
    using matching_no_filter[OF pharmacy_ok(1), of "''supplier''"]
    by (simp add: f pharmacy_def collection_def)
  have r: "map id_to_str (medicine_docs ms) = medicine_results ms"
          "map id_to_str (staff_docs ss) = staff_results ss" for ms ss
    by (simp_all add: medicine_docs_def medicine_results_def staff_docs_def staff_results_def
          id_to_str_stored_medicine id_to_str_stored_staff split_def)
  have t: "take (Suc 0) (medicine_docs three_medicines) = medicine_docs [(ObjectId 0, aspirin)]"
          "take 2 (staff_docs three_staff) = staff_docs [(ObjectId 3, alice), (ObjectId 4, bob)]"
          "take 100 (medicine_docs three_medicines) = medicine_docs three_medicines"
    by (simp_all add: medicine_docs_def three_medicines_def staff_docs_def three_staff_def)
  from C4_limit[of _ None None _ None None pharmacy "medicine_docs three_medicines" "[]"
                   "staff_docs three_staff" "[]"] m1 m2 m3 m4
  have "limit_law (list_medicines (Some pharmacy) None None) (medicine_docs three_medicines)"
    and "limit_law (list_prescriptions (Some pharmacy) None) []"
    and "limit_law (list_staff (Some pharmacy) None None) (staff_docs three_staff)"
    and "limit_law (list_suppliers (Some pharmacy) None) []"
    by blast+
  moreover have "length (medicine_docs three_medicines) = 3"
    by (simp add: medicine_docs_def three_medicines_def)
  ultimately show ?thesis using m1 m2 m3 m4
    by (simp add: limit_law_def t r)
qed

section \<open>The filter of \<open>low_stock\<close>\<close>

text \<open>
  C9. For every \<open>q\<close> and \<open>limit\<close>, \<open>GET /api/medicines\<close> with \<open>low_stock=false\<close> builds
  the filter of the request without \<open>low_stock\<close> and returns what that request returns:
  the filter for \<open>false\<close> has no \<open>$expr\<close> entry, and the filter for \<open>true\<close> is the same
  filter with the entry for stock at most reorder level added.
\<close>

theorem C9_low_stock_false:
  "list_medicines_filt q (Some False) = list_medicines_filt q None
   \<and> list_medicines db q (Some False) limit = list_medicines db q None limit
   \<and> map_of (list_medicines_filt q (Some False)) ''$expr'' = None
   \<and> list_medicines_filt q (Some True)
       = AList.update ''$expr'' (Expr_lte ''$stock'' ''$reorder_level'')
           (list_medicines_filt q None)"
  by (simp add: list_medicines_filt_def list_medicines_def Let_def)

section \<open>The identifier helper and the routes\<close>






section \<open>Diagnostics\<close>

text \<open>
  C6. \<open>GET /test\<close> always returns a response, for every environment and every state of
  the connection. Without a connection the response says \<open>Not Connected\<close>; when the
  probe of a connected store fails, its message is in the response, cut to at most 80
  characters.
\<close>

theorem C6_diagnostics:
  "\<exists>r. test_database env db = Inr r
      \<and> (db = None \<longrightarrow> connection_status r = u ''Not Connected''
                       \<and> database r = mark_no @ u '' Not Available'')
      \<and> (\<forall>d m. db = Some d \<and> failing d = Some m \<longrightarrow>
            database r = mark_warn @ u '' Connected but Error: '' @ take 80 m
            \<and> length (take 80 m) \<le> 80)"
proof (cases db)
  case None
  then show ?thesis by (simp add: test_database_def)
next
  case (Some d)
  show ?thesis
  proof (cases "failing d")
    case None
    with Some show ?thesis by (simp add: test_database_def list_collection_names_def)
  next
    case (Some m)
    with \<open>db = Some d\<close> show ?thesis
      by (simp add: test_database_def list_collection_names_def)
  qed
qed

theorem C6_diagnostics_witness:
  "failing unreachable = Some (replicate 100 120)
   \<and> (\<exists>r. test_database Map.empty None = Inr r \<and> connection_status r = u ''Not Connected'')
   \<and> (\<exists>r. test_database Map.empty (Some unreachable) = Inr r
          \<and> database r = mark_warn @ u '' Connected but Error: '' @ replicate 80 120)"
proof -
  have f: "failing unreachable = Some (replicate 100 120)" by (simp add: unreachable_def)
  from C6_diagnostics[of Map.empty None]
  have 1: "\<exists>r. test_database Map.empty None = Inr r \<and> connection_status r = u ''Not Connected''"
    by auto
  from C6_diagnostics[of Map.empty "Some unreachable"] f
  have 2: "\<exists>r. test_database Map.empty (Some unreachable) = Inr r
          \<and> database r = mark_warn @ u '' Connected but Error: '' @ replicate 80 120"
    by auto
  from f 1 2 show ?thesis by blast
qed

section \<open>Creating prescriptions\<close>

lemma collection_with_document:
  "collection (with_document d c data) c
   = collection d c @ [stored_doc (ObjectId (next_oid d)) data]"
  by (simp add: with_document_def collection_def update_conv')

lemma create_document_ok:
  assumes "failing d = None"
  shows "create_document (Some d) c data
         = (Inr (str_ObjectId (ObjectId (next_oid d))), Some (with_document d c data))"
  using assms
  by (simp add: create_document_def with_document_def stored_doc_def Let_def
      del: str_ObjectId.simps)




lemma validate_Prescription_Inr:
  assumes "validate_Prescription b = Inr p"
  shows "items_field (pb_items b) = Inr (items p)"
    and "defaulted ''subtotal'' (Finite 0) (\<lambda>x. float_ge x 0) (pb_subtotal b) = Inr (subtotal p)"
    and "defaulted ''tax'' (Finite 0) (\<lambda>x. float_ge x 0) (pb_tax b) = Inr (tax p)"
    and "defaulted ''total'' (Finite 0) (\<lambda>x. float_ge x 0) (pb_total b) = Inr (total p)"
  using assms unfolding validate_Prescription_def ap_Inr_iff mk_Prescription_def
  by auto





lemma post_prescriptions_accepted:
  assumes "validate_Prescription body = Inr p" and "failing d = None"
  shows "post_prescriptions (Some d) body
         = (Created (str_ObjectId (ObjectId (next_oid d))),
            Some (with_document d ''prescription'' (dump_Prescription p)))"
  using assms
  by (simp add: post_prescriptions_def post_def create_prescription_def create_document_ok
      del: str_ObjectId.simps)

lemma lookup_prescription:
  "map_of (stored_doc oid (dump_Prescription p)) ''subtotal'' = Some (BFloat (subtotal p))"
  "map_of (stored_doc oid (dump_Prescription p)) ''tax'' = Some (BFloat (tax p))"
  "map_of (stored_doc oid (dump_Prescription p)) ''total'' = Some (BFloat (total p))"
  "map_of (stored_doc oid (dump_Prescription p)) ''items''
     = Some (BList (map (\<lambda>i. BDoc (dump_PrescriptionItem i)) (items p)))"
  by (simp_all add: stored_doc_def dump_Prescription_def)




lemma validate_items_omitted:
  "validate_Prescription (body\<lparr>pb_items := Absent\<rparr>)
   = validate_Prescription (body\<lparr>pb_items := Given []\<rparr>)"
  by (simp add: validate_Prescription_def)

lemma validate_patient_only:
  "validate_Prescription (empty_Prescription_body\<lparr>pb_patient_name := Given n\<rparr>)
   = Inr (mk_Prescription None n None None [] (Finite 0) (Finite 0) (Finite 0) ''pending'' None)"
  by (simp add: validate_Prescription_def empty_Prescription_body_def any_value_def)

text \<open>
  C10. A body of \<open>POST /api/prescriptions\<close> without \<open>items\<close> is validated as the
  same body with \<open>items\<close> empty, and a body with a patient name and nothing else is
  accepted. An accepted prescription of either form has no items and is stored with an
  empty list of items.
\<close>

theorem C10_items_optional:
  "validate_Prescription (body\<lparr>pb_items := Absent\<rparr>)
     = validate_Prescription (body\<lparr>pb_items := Given []\<rparr>)
   \<and> validate_Prescription (empty_Prescription_body\<lparr>pb_patient_name := Given n\<rparr>)
     = Inr (mk_Prescription None n None None [] (Finite 0) (Finite 0) (Finite 0) ''pending'' None)
   \<and> (\<forall>p. validate_Prescription (body\<lparr>pb_items := Given []\<rparr>) = Inr p \<and> failing d = None \<longrightarrow>
        items p = []
        \<and> post_prescriptions (Some d) (body\<lparr>pb_items := Given []\<rparr>)
            = (Created (str_ObjectId (ObjectId (next_oid d))),
               Some (with_document d ''prescription'' (dump_Prescription p)))
        \<and> post_prescriptions (Some d) (body\<lparr>pb_items := Absent\<rparr>)
            = post_prescriptions (Some d) (body\<lparr>pb_items := Given []\<rparr>)
        \<and> collection (with_document d ''prescription'' (dump_Prescription p)) ''prescription''
            = collection d ''prescription''
              @ [stored_doc (ObjectId (next_oid d)) (dump_Prescription p)]
        \<and> map_of (stored_doc (ObjectId (next_oid d)) (dump_Prescription p)) ''items''
            = Some (BList []))"
proof (intro conjI impI allI)
  show "validate_Prescription (body\<lparr>pb_items := Absent\<rparr>)
     = validate_Prescription (body\<lparr>pb_items := Given []\<rparr>)"
    by (rule validate_items_omitted)
  show "validate_Prescription (empty_Prescription_body\<lparr>pb_patient_name := Given n\<rparr>)
     = Inr (mk_Prescription None n None None [] (Finite 0) (Finite 0) (Finite 0) ''pending'' None)"
    by (rule validate_patient_only)
next
  fix p
  assume a: "validate_Prescription (body\<lparr>pb_items := Given []\<rparr>) = Inr p \<and> failing d = None"
  from validate_Prescription_Inr(1)[of "body\<lparr>pb_items := Given []\<rparr>" p] a
  show i: "items p = []" by simp
  from a show "post_prescriptions (Some d) (body\<lparr>pb_items := Given []\<rparr>)
            = (Created (str_ObjectId (ObjectId (next_oid d))),
               Some (with_document d ''prescription'' (dump_Prescription p)))"
    by (simp add: post_prescriptions_accepted del: str_ObjectId.simps)
  show "post_prescriptions (Some d) (body\<lparr>pb_items := Absent\<rparr>)
            = post_prescriptions (Some d) (body\<lparr>pb_items := Given []\<rparr>)"
    by (simp add: post_prescriptions_def post_def validate_items_omitted)
  show "collection (with_document d ''prescription'' (dump_Prescription p)) ''prescription''
            = collection d ''prescription''
              @ [stored_doc (ObjectId (next_oid d)) (dump_Prescription p)]"
    by (rule collection_with_document)
  from i show "map_of (stored_doc (ObjectId (next_oid d)) (dump_Prescription p)) ''items''
            = Some (BList [])"
    by (simp add: lookup_prescription)
qed

theorem C10_items_optional_witness:
  "failing empty_store = None
   \<and> validate_Prescription
         ((empty_Prescription_body\<lparr>pb_patient_name := Given ''Ann''\<rparr>)\<lparr>pb_items := Given []\<rparr>)
       = Inr (mk_Prescription None ''Ann'' None None [] (Finite 0) (Finite 0) (Finite 0)
                ''pending'' None)
   \<and> post_prescriptions (Some empty_store)
         (empty_Prescription_body\<lparr>pb_patient_name := Given ''Ann''\<rparr>)
       = (Created (str_ObjectId (ObjectId 0)),
          Some (with_document empty_store ''prescription''
                  (dump_Prescription
                     (mk_Prescription None ''Ann'' None None [] (Finite 0) (Finite 0) (Finite 0)
                        ''pending'' None))))
   \<and> map_of (stored_doc (ObjectId 0)
               (dump_Prescription
                  (mk_Prescription None ''Ann'' None None [] (Finite 0) (Finite 0) (Finite 0)
                     ''pending'' None))) ''items''
       = Some (BList [])"
proof -
  let ?body = "empty_Prescription_body\<lparr>pb_patient_name := Given ''Ann''\<rparr>"
  let ?p = "mk_Prescription None ''Ann'' None None [] (Finite 0) (Finite 0) (Finite 0)
              ''pending'' None"
  have e: "failing empty_store = None" "next_oid empty_store = 0"
    by (simp_all add: empty_store_def)
  have b: "?body\<lparr>pb_items := Absent\<rparr> = ?body" by (simp add: empty_Prescription_body_def)
  note c = C10_items_optional[of ?body "''Ann''" empty_store]
  from c have 1: "validate_Prescription (?body\<lparr>pb_items := Absent\<rparr>)
                  = validate_Prescription (?body\<lparr>pb_items := Given []\<rparr>)"
    and 2: "validate_Prescription ?body = Inr ?p"
    by blast+
  from 1 have "validate_Prescription ?body
               = validate_Prescription (?body\<lparr>pb_items := Given []\<rparr>)"
    by (simp only: b)
  with 2 have v: "validate_Prescription (?body\<lparr>pb_items := Given []\<rparr>) = Inr ?p" by simp
  from c v e b
  have "post_prescriptions (Some empty_store) ?body
          = (Created (str_ObjectId (ObjectId 0)),
             Some (with_document empty_store ''prescription'' (dump_Prescription ?p)))"
    and "map_of (stored_doc (ObjectId 0) (dump_Prescription ?p)) ''items'' = Some (BList [])"
    by (simp_all del: str_ObjectId.simps)
  with e v show ?thesis by blast
qed


end
